theory Spec2Isabelle
  imports Complex_Main "HOL-Library.Monad_Syntax"
begin

section \<open>JavaScript values read by the data service\<close>

text \<open>
  The service (\<^verbatim>\<open>src/services/dataService.js\<close>) works on whatever
  \<^verbatim>\<open>response.json()\<close> delivers, so the raw data is modelled as a JSON value,
  extended with \<^verbatim>\<open>undefined\<close> for the result of reading a property that is not there.

  Numbers are exact rationals extended with \<^verbatim>\<open>NaN\<close> and the two infinities. The
  rounding, the overflow and the signed zero of IEEE doubles are not modelled: a decimal
  literal stands for its exact value (also one beyond the range of a double, which
  \<^verbatim>\<open>parseFloat\<close> turns into an infinity or 0), and comparisons are comparisons of
  exact values.

  Strings are the UTF-8 bytes of the text.

  An exception thrown by the JavaScript is the value \<open>None\<close> of an option type.
\<close>

datatype jsnum = NaN | NegInf | Fin rat | PosInf

datatype jsval =
    JUndefined
  | JNull
  | JBool bool
  | JNum jsnum
  | JStr string
  | JArr "jsval list"
  | JObj "(string \<times> jsval) list"

text \<open>\<^verbatim>\<open>a < b\<close> on numbers; false when an operand is \<^verbatim>\<open>NaN\<close>.\<close>

fun num_lt :: "jsnum \<Rightarrow> jsnum \<Rightarrow> bool" where
  "num_lt NaN b = False"
| "num_lt a NaN = False"
| "num_lt NegInf NegInf = False"
| "num_lt NegInf b = True"
| "num_lt (Fin a) (Fin b) = (a < b)"
| "num_lt (Fin a) PosInf = True"
| "num_lt (Fin a) NegInf = False"
| "num_lt PosInf b = False"

text \<open>\<^verbatim>\<open>a >= b\<close>: neither operand is \<^verbatim>\<open>NaN\<close> and \<^verbatim>\<open>a < b\<close> is false.\<close>

definition num_ge :: "jsnum \<Rightarrow> jsnum \<Rightarrow> bool" where
  "num_ge a b = (a \<noteq> NaN \<and> b \<noteq> NaN \<and> \<not> num_lt a b)"

text \<open>\<^verbatim>\<open>a > b\<close> is \<^verbatim>\<open>b < a\<close>.\<close>

definition num_gt :: "jsnum \<Rightarrow> jsnum \<Rightarrow> bool" where
  "num_gt a b = num_lt b a"

text \<open>\<^verbatim>\<open>a <= b\<close>: neither operand is \<^verbatim>\<open>NaN\<close> and \<^verbatim>\<open>b < a\<close> is false.\<close>

definition num_le :: "jsnum \<Rightarrow> jsnum \<Rightarrow> bool" where
  "num_le a b = (a \<noteq> NaN \<and> b \<noteq> NaN \<and> \<not> num_lt b a)"

text \<open>Truthiness, as tested by \<^verbatim>\<open>!x\<close>, \<^verbatim>\<open>x || y\<close>, \<^verbatim>\<open>x && y\<close> and \<^verbatim>\<open>if (x)\<close>.\<close>

fun truthy :: "jsval \<Rightarrow> bool" where
  "truthy JUndefined = False"
| "truthy JNull = False"
| "truthy (JBool b) = b"
| "truthy (JNum n) = (n \<noteq> NaN \<and> n \<noteq> Fin 0)"
| "truthy (JStr s) = (s \<noteq> [])"
| "truthy (JArr xs) = True"
| "truthy (JObj kvs) = True"

text \<open>\<^verbatim>\<open>a || b\<close>: the left operand when it is truthy, else the right one.\<close>

definition js_or :: "jsval \<Rightarrow> jsval \<Rightarrow> jsval" where
  "js_or a b = (if truthy a then a else b)"

fun nullish :: "jsval \<Rightarrow> bool" where
  "nullish JUndefined = True"
| "nullish JNull = True"
| "nullish v = False"

text \<open>
  An object is the list of its own properties; a name is looked up from the front.

  \<^verbatim>\<open>x.k\<close> for the property names the service reads from raw data (the field aliases,
  \<^verbatim>\<open>stations\<close> and \<^verbatim>\<open>data\<close>). None of these names is defined by the prototype of
  an object, an array, a string, a number or a boolean, so the read yields the object's own
  property or \<^verbatim>\<open>undefined\<close>. Reading a property of \<^verbatim>\<open>null\<close> or
  \<^verbatim>\<open>undefined\<close> throws a TypeError.
\<close>

fun getProp :: "jsval \<Rightarrow> string \<Rightarrow> jsval option" where
  "getProp JUndefined k = None"
| "getProp JNull k = None"
| "getProp (JObj kvs) k = Some (case map_of kvs k of Some v \<Rightarrow> v | None \<Rightarrow> JUndefined)"
| "getProp v k = Some JUndefined"

text \<open>\<^verbatim>\<open>Array.isArray(x)\<close>.\<close>

fun isArray :: "jsval \<Rightarrow> bool" where
  "isArray (JArr xs) = True"
| "isArray v = False"

text \<open>\<^verbatim>\<open>x.length === 0\<close> for a truthy \<^verbatim>\<open>x\<close>.\<close>

fun lengthIsZero :: "jsval \<Rightarrow> bool" where
  "lengthIsZero (JArr xs) = (xs = [])"
| "lengthIsZero (JStr s) = (s = [])"
| "lengthIsZero (JObj kvs) = (map_of kvs ''length'' = Some (JNum (Fin 0)))"
| "lengthIsZero v = False"

subsection \<open>Conversion to a string\<close>

text \<open>
  \<^verbatim>\<open>parseFloat(x)\<close> and \<^verbatim>\<open>table[x]\<close> first convert \<^verbatim>\<open>x\<close> to a string.
  For an object this calls its \<^verbatim>\<open>toString\<close>: the inherited one gives
  \<^verbatim>\<open>[object Object]\<close>, but an own property of that name (never callable in parsed JSON)
  hides it, and then the conversion throws a TypeError. An array joins the strings of its
  elements with commas, \<^verbatim>\<open>null\<close> giving the empty string.
\<close>

fun stringifiable :: "jsval \<Rightarrow> bool" where
  "stringifiable (JObj kvs) = (map_of kvs ''toString'' = None)"
| "stringifiable (JArr xs) = list_all stringifiable xs"
| "stringifiable v = True"

fun joinKeys :: "string option list \<Rightarrow> string option" where
  "joinKeys [] = Some []"
| "joinKeys [k] = k"
| "joinKeys (k # ks) =
     (case (k, joinKeys ks) of
        (Some s, Some r) \<Rightarrow> Some (s @ CHR '','' # r)
      | _ \<Rightarrow> None)"

text \<open>
  The string of a value that is stringifiable, as far as it can name a property: the text
  of a finite number is not computed, and the result is \<open>None\<close> when a finite number
  takes part in it. Such a text contains a digit, which no property name of the static
  tables of the service or of \<^verbatim>\<open>Object.prototype\<close> does.
\<close>

fun toPropertyKey :: "jsval \<Rightarrow> string option" where
  "toPropertyKey JUndefined = Some ''undefined''"
| "toPropertyKey JNull = Some ''null''"
| "toPropertyKey (JBool b) = Some (if b then ''true'' else ''false'')"
| "toPropertyKey (JNum NaN) = Some ''NaN''"
| "toPropertyKey (JNum PosInf) = Some ''Infinity''"
| "toPropertyKey (JNum NegInf) = Some ''-Infinity''"
| "toPropertyKey (JNum (Fin q)) = None"
| "toPropertyKey (JStr s) = Some s"
| "toPropertyKey (JObj kvs) = Some ''[object Object]''"
| "toPropertyKey (JArr xs) =
     joinKeys (map (\<lambda>x. if nullish x then Some [] else toPropertyKey x) xs)"

subsection \<open>parseFloat\<close>

definition isDigit :: "char \<Rightarrow> bool" where
  "isDigit c = (48 \<le> (of_char c :: nat) \<and> (of_char c :: nat) \<le> 57)"

definition digitsValue :: "string \<Rightarrow> nat" where
  "digitsValue ds = foldl (\<lambda>acc c. 10 * acc + ((of_char c :: nat) - 48)) 0 ds"

text \<open>
  The white space and line terminators that \<^verbatim>\<open>parseFloat\<close> skips, in UTF-8:
  U+0009 to U+000D, U+0020, U+00A0, U+1680, U+2000 to U+200A, U+2028, U+2029, U+202F,
  U+205F, U+3000 and U+FEFF.
\<close>

definition WHITE_SPACE :: "string list" where
  "WHITE_SPACE =
     map (\<lambda>c. [c]) [CHR 0x09, CHR 0x0A, CHR 0x0B, CHR 0x0C, CHR 0x0D, CHR 0x20] @
     [[CHR 0xC2, CHR 0xA0], [CHR 0xE1, CHR 0x9A, CHR 0x80]] @
     map (\<lambda>c. [CHR 0xE2, CHR 0x80, c])
       [CHR 0x80, CHR 0x81, CHR 0x82, CHR 0x83, CHR 0x84, CHR 0x85, CHR 0x86, CHR 0x87,
        CHR 0x88, CHR 0x89, CHR 0x8A, CHR 0xA8, CHR 0xA9, CHR 0xAF] @
     [[CHR 0xE2, CHR 0x81, CHR 0x9F], [CHR 0xE3, CHR 0x80, CHR 0x80],
      [CHR 0xEF, CHR 0xBB, CHR 0xBF]]"

definition wsLen :: "string \<Rightarrow> nat" where
  "wsLen s = (case find (\<lambda>w. take (length w) s = w) WHITE_SPACE of
                Some w \<Rightarrow> length w
              | None \<Rightarrow> 0)"

function trimStart :: "string \<Rightarrow> string" where
  "trimStart s = (if wsLen s = 0 then s else trimStart (drop (wsLen s) s))"
  by pat_completeness auto
termination
proof (relation "measure length")
  show "wf (measure length)" by simp
next
  fix s :: string
  assume "wsLen s \<noteq> 0"
  moreover have "wsLen [] = 0" by (simp add: wsLen_def WHITE_SPACE_def)
  ultimately have "s \<noteq> []" by auto
  with \<open>wsLen s \<noteq> 0\<close> show "(drop (wsLen s) s, s) \<in> measure length" by simp
qed

declare trimStart.simps [simp del]

text \<open>\<^verbatim>\<open>ExponentPart\<close>, when one is there: \<^verbatim>\<open>e\<close> or \<^verbatim>\<open>E\<close>, a sign, digits.\<close>

definition exponentPart :: "string \<Rightarrow> int" where
  "exponentPart s =
     (case s of
        [] \<Rightarrow> 0
      | c # r \<Rightarrow>
          if c = CHR ''e'' \<or> c = CHR ''E'' then
            (let (sgn, ds) = (case r of
                                [] \<Rightarrow> (1, [])
                              | d # t \<Rightarrow> if d = CHR ''+'' then (1, t)
                                         else if d = CHR ''-'' then (- 1, t)
                                         else (1, r));
                 es = takeWhile isDigit ds
             in if es = [] then 0 else sgn * int (digitsValue es))
          else 0)"

definition pow10 :: "int \<Rightarrow> rat" where
  "pow10 k = (if 0 \<le> k then 10 ^ nat k else 1 / 10 ^ nat (- k))"

text \<open>
  The longest prefix that is a \<^verbatim>\<open>StrUnsignedDecimalLiteral\<close> other than
  \<^verbatim>\<open>Infinity\<close>: digits, a fraction, an exponent. \<open>None\<close> when there is none.
\<close>

definition strUnsigned :: "string \<Rightarrow> rat option" where
  "strUnsigned s =
     (let ip = takeWhile isDigit s;
          r1 = dropWhile isDigit s;
          (fp, r2) = (case r1 of
                        [] \<Rightarrow> ([], [])
                      | c # r \<Rightarrow> if c = CHR ''.''
                                 then (takeWhile isDigit r, dropWhile isDigit r)
                                 else ([], r1))
      in if ip = [] \<and> fp = [] then None
         else Some (of_nat (digitsValue (ip @ fp)) * pow10 (exponentPart r2 - int (length fp))))"

text \<open>\<^verbatim>\<open>parseFloat\<close> of a string.\<close>

definition strToNum :: "string \<Rightarrow> jsnum" where
  "strToNum s =
     (let t = trimStart s;
          (neg, u) = (case t of
                        [] \<Rightarrow> (False, [])
                      | c # r \<Rightarrow> if c = CHR ''-'' then (True, r)
                                 else if c = CHR ''+'' then (False, r)
                                 else (False, t))
      in if take 8 u = ''Infinity'' then (if neg then NegInf else PosInf)
         else (case strUnsigned u of
                 None \<Rightarrow> NaN
               | Some q \<Rightarrow> Fin (if neg then - q else q)))"

text \<open>
  \<^verbatim>\<open>parseFloat\<close> of the string of a stringifiable value. The text of a number parses
  back to that number. The text of an array begins with the text of its first element, and
  the comma that follows (or the end) stops the number; an empty first element leaves no
  number. The other texts (\<^verbatim>\<open>true\<close>, \<^verbatim>\<open>null\<close>, \<^verbatim>\<open>[object Object]\<close>, ...)
  begin with no number.
\<close>

fun parseText :: "jsval \<Rightarrow> jsnum" where
  "parseText (JStr s) = strToNum s"
| "parseText (JNum n) = n"
| "parseText (JArr []) = NaN"
| "parseText (JArr (x # xs)) = (if nullish x then NaN else parseText x)"
| "parseText v = NaN"

text \<open>\<^verbatim>\<open>parseFloat(x)\<close>; \<open>None\<close> is the TypeError of the conversion to a string.\<close>

definition parseFloat :: "jsval \<Rightarrow> jsnum option" where
  "parseFloat v = (if stringifiable v then Some (parseText v) else None)"

section \<open>Static configuration\<close>

text \<open>\<^verbatim>\<open>DATA_SOURCES\<close>: the two feeds that \<^verbatim>\<open>fetchRiverData\<close> reads.\<close>

definition DATA_SOURCES_irrigation :: string where
  "DATA_SOURCES_irrigation =
     ''https://raw.githubusercontent.com/nuuuwan/lk_irrigation/main/data/rwlds/latest.json''"

definition DATA_SOURCES_dmc :: string where
  "DATA_SOURCES_dmc =
     ''https://raw.githubusercontent.com/nuuuwan/lk_dmc_vis/main/data/latest.json''"

text \<open>An entry of \<^verbatim>\<open>CRITICAL_STATIONS\<close>: \<^verbatim>\<open>{ river, lat, lng, priority }\<close>.\<close>

record critical_station =
  cs_river :: string
  cs_lat :: rat
  cs_lng :: rat
  cs_priority :: nat

definition CRITICAL_STATIONS :: "(string \<times> critical_station) list" where
  "CRITICAL_STATIONS =
     [(''Nagalagam Street'',
         \<lparr>cs_river = ''Kelani Ganga'', cs_lat = 696027 / 100000, cs_lng = 7987858 / 100000,
          cs_priority = 1\<rparr>),
      (''Peradeniya'',
         \<lparr>cs_river = ''Mahaweli Ganga'', cs_lat = 726417 / 100000, cs_lng = 8059362 / 100000,
          cs_priority = 1\<rparr>),
      (''Moragaswewa'',
         \<lparr>cs_river = ''Deduru Oya'', cs_lat = 773187 / 100000, cs_lng = 8024296 / 100000,
          cs_priority = 1\<rparr>),
      (''Thanthirimale'',
         \<lparr>cs_river = ''Malwathu Oya'', cs_lat = 858076 / 100000, cs_lng = 8028401 / 100000,
          cs_priority = 1\<rparr>)]"

text \<open>An entry of \<^verbatim>\<open>ALERT_THRESHOLDS\<close>: \<^verbatim>\<open>{ major, minor, alert }\<close>, in metres.\<close>

record thresholds =
  th_major :: rat
  th_minor :: rat
  th_alert :: rat

definition DEFAULT_THRESHOLDS :: thresholds where
  "DEFAULT_THRESHOLDS = \<lparr>th_major = 10, th_minor = 75 / 10, th_alert = 5\<rparr>"

definition ALERT_THRESHOLDS :: "(string \<times> thresholds) list" where
  "ALERT_THRESHOLDS =
     [(''Nagalagam Street'', \<lparr>th_major = 24 / 10, th_minor = 2, th_alert = 16 / 10\<rparr>),
      (''Peradeniya'', \<lparr>th_major = 8, th_minor = 65 / 10, th_alert = 55 / 10\<rparr>),
      (''Moragaswewa'', \<lparr>th_major = 75 / 10, th_minor = 6, th_alert = 5\<rparr>),
      (''Thanthirimale'', \<lparr>th_major = 9, th_minor = 75 / 10, th_alert = 65 / 10\<rparr>),
      (''Hanwella'', \<lparr>th_major = 9, th_minor = 75 / 10, th_alert = 65 / 10\<rparr>),
      (''Glencourse'', \<lparr>th_major = 15, th_minor = 135 / 10, th_alert = 12\<rparr>),
      (''Rathnapura'', \<lparr>th_major = 7, th_minor = 55 / 10, th_alert = 45 / 10\<rparr>),
      (''Kalawellawa'', \<lparr>th_major = 8, th_minor = 65 / 10, th_alert = 55 / 10\<rparr>),
      (''default'', DEFAULT_THRESHOLDS)]"

subsection \<open>Reading a table by a computed key\<close>

text \<open>
  Both tables are object literals, so \<^verbatim>\<open>table[key]\<close> also finds the properties that
  every object inherits from \<^verbatim>\<open>Object.prototype\<close>. Their values are functions (for
  \<^verbatim>\<open>__proto__\<close>, the prototype object): truthy, and without any of the fields of a
  table entry.
\<close>

definition OBJECT_PROTOTYPE :: "string list" where
  "OBJECT_PROTOTYPE =
     [''constructor'', ''hasOwnProperty'', ''isPrototypeOf'', ''propertyIsEnumerable'',
      ''toLocaleString'', ''toString'', ''valueOf'', ''__proto__'',
      ''__defineGetter__'', ''__defineSetter__'', ''__lookupGetter__'', ''__lookupSetter__'']"

datatype 'a lookup = Own 'a | Inherited | Missing

text \<open>\<^verbatim>\<open>table[key]\<close>; \<open>None\<close> is the TypeError of converting the key to a string.\<close>

definition tableGet :: "(string \<times> 'a) list \<Rightarrow> jsval \<Rightarrow> 'a lookup option" where
  "tableGet table key =
     (if \<not> stringifiable key then None
      else Some (case toPropertyKey key of
                   None \<Rightarrow> Missing
                 | Some k \<Rightarrow>
                     (case map_of table k of
                        Some entry \<Rightarrow> Own entry
                      | None \<Rightarrow> if k \<in> set OBJECT_PROTOTYPE then Inherited else Missing)))"

text \<open>\<^verbatim>\<open>table.hasOwnProperty(key)\<close>: own properties only.\<close>

definition hasOwnProperty :: "(string \<times> 'a) list \<Rightarrow> jsval \<Rightarrow> bool option" where
  "hasOwnProperty table key =
     (if \<not> stringifiable key then None
      else Some (case toPropertyKey key of
                   None \<Rightarrow> False
                 | Some k \<Rightarrow> map_of table k \<noteq> None))"

text \<open>
  \<^verbatim>\<open>found.field\<close> for a truthy result of a table read: the number of the entry, or
  \<^verbatim>\<open>undefined\<close> when the result is an inherited property.
\<close>

fun numField :: "('a \<Rightarrow> rat) \<Rightarrow> 'a lookup \<Rightarrow> jsval" where
  "numField f (Own entry) = JNum (Fin (f entry))"
| "numField f Inherited = JUndefined"
| "numField f Missing = JUndefined"

section \<open>Field extraction\<close>

record coordinates =
  lat :: jsval
  lng :: jsval

definition getStationName :: "jsval \<Rightarrow> jsval option" where
  "getStationName station = do {
     a \<leftarrow> getProp station ''station_name'';
     b \<leftarrow> getProp station ''station'';
     c \<leftarrow> getProp station ''name'';
     d \<leftarrow> getProp station ''Station'';
     Some (js_or (js_or (js_or (js_or a b) c) d) (JStr ''Unknown Station''))
   }"

text \<open>
  \<^verbatim>\<open>CRITICAL_STATIONS[getStationName(station)]?.river\<close> is evaluated only when the four
  aliases are falsy.
\<close>

definition getRiverName :: "jsval \<Rightarrow> jsval option" where
  "getRiverName station = do {
     a \<leftarrow> getProp station ''river_basin'';
     b \<leftarrow> getProp station ''river'';
     c \<leftarrow> getProp station ''basin'';
     d \<leftarrow> getProp station ''River'';
     let explicit = js_or (js_or (js_or a b) c) d;
     if truthy explicit then Some explicit
     else do {
       stationName \<leftarrow> getStationName station;
       found \<leftarrow> tableGet CRITICAL_STATIONS stationName;
       Some (js_or (case found of Own entry \<Rightarrow> JStr (cs_river entry) | _ \<Rightarrow> JUndefined)
                   (JStr ''Unknown River''))
     }
   }"

text \<open>
  The chain ends in \<^verbatim>\<open>null\<close>, so \<^verbatim>\<open>level !== null\<close> holds exactly when an alias
  is truthy.
\<close>

definition getWaterLevel :: "jsval \<Rightarrow> jsnum option option" where
  "getWaterLevel station = do {
     a \<leftarrow> getProp station ''level_m'';
     b \<leftarrow> getProp station ''level'';
     c \<leftarrow> getProp station ''water_level'';
     d \<leftarrow> getProp station ''Level'';
     let level = js_or (js_or (js_or (js_or a b) c) d) JNull;
     if level \<noteq> JNull then map_option Some (parseFloat level) else Some None
   }"

definition SRI_LANKA_CENTER :: coordinates where
  "SRI_LANKA_CENTER = \<lparr>lat = JNum (Fin (78731 / 10000)), lng = JNum (Fin (807718 / 10000))\<rparr>"

definition getCoordinates :: "jsval \<Rightarrow> jsval \<Rightarrow> coordinates option" where
  "getCoordinates station stationName = do {
     latitude \<leftarrow> getProp station ''latitude'';
     longitude \<leftarrow> getProp station ''longitude'';
     if truthy latitude \<and> truthy longitude then do {
       la \<leftarrow> parseFloat latitude;
       lo \<leftarrow> parseFloat longitude;
       Some \<lparr>lat = JNum la, lng = JNum lo\<rparr>
     }
     else do {
       found \<leftarrow> tableGet CRITICAL_STATIONS stationName;
       Some (case found of
               Missing \<Rightarrow> SRI_LANKA_CENTER
             | _ \<Rightarrow> \<lparr>lat = numField cs_lat found, lng = numField cs_lng found\<rparr>)
     }
   }"

text \<open>\<^verbatim>\<open>new Date().toISOString()\<close> is the parameter \<open>now\<close>.\<close>

definition getTimestamp :: "string \<Rightarrow> jsval \<Rightarrow> jsval option" where
  "getTimestamp now station = do {
     a \<leftarrow> getProp station ''measured_at'';
     b \<leftarrow> getProp station ''timestamp'';
     c \<leftarrow> getProp station ''time'';
     d \<leftarrow> getProp station ''Timestamp'';
     Some (js_or (js_or (js_or (js_or a b) c) d) (JStr now))
   }"

definition getRateOfRise :: "jsval \<Rightarrow> jsnum option" where
  "getRateOfRise station = do {
     a \<leftarrow> getProp station ''rate_of_rise'';
     b \<leftarrow> getProp station ''rate'';
     c \<leftarrow> getProp station ''change_rate'';
     parseFloat (js_or (js_or (js_or a b) c) (JNum (Fin 0)))
   }"

section \<open>Alert classification\<close>

text \<open>The four labels, with the bytes that precede the words in the source file.\<close>

definition MAJOR_FLOOD :: string where
  "MAJOR_FLOOD = [CHR 0xE6, CHR 0xB8, CHR 0xB8, CHR 0xEB, CHR 0x8C, CHR 0xAE] @ '' Major Flood''"

definition MINOR_FLOOD :: string where
  "MINOR_FLOOD = [CHR 0xE6, CHR 0xB8, CHR 0xB8] @ '' Minor Flood''"

definition ALERT :: string where
  "ALERT = [CHR 0xE6, CHR 0xB8, CHR 0xB8, CHR 0xEB, CHR 0xA6, CHR 0xAC] @ '' Alert''"

definition NORMAL :: string where
  "NORMAL = [CHR 0xE6, CHR 0xB8, CHR 0xB8, CHR 0xEB, CHR 0xA6, CHR 0xAD] @ '' Normal''"

text \<open>
  \<^verbatim>\<open>level >= cutoff\<close> where \<^verbatim>\<open>level\<close> is a number or \<^verbatim>\<open>null\<close> and the
  cutoff a number or \<^verbatim>\<open>undefined\<close>: \<^verbatim>\<open>null\<close> counts as 0 and
  \<^verbatim>\<open>undefined\<close> as \<^verbatim>\<open>NaN\<close>.
\<close>

fun level_ge :: "jsnum option \<Rightarrow> jsval \<Rightarrow> bool" where
  "level_ge None (JNum c) = num_ge (Fin 0) c"
| "level_ge (Some l) (JNum c) = num_ge l c"
| "level_ge l c = False"

text \<open>
  \<^verbatim>\<open>ALERT_THRESHOLDS[stationName] || ALERT_THRESHOLDS.default\<close>: an own entry and an
  inherited property are both truthy, so the default applies only when nothing is found.
\<close>

definition determineAlertLevel :: "jsval \<Rightarrow> jsnum option \<Rightarrow> string option" where
  "determineAlertLevel stationName level = do {
     found \<leftarrow> tableGet ALERT_THRESHOLDS stationName;
     let thresholds = (case found of Missing \<Rightarrow> Own DEFAULT_THRESHOLDS | _ \<Rightarrow> found);
     Some (if level_ge level (numField th_major thresholds) then MAJOR_FLOOD
           else if level_ge level (numField th_minor thresholds) then MINOR_FLOOD
           else if level_ge level (numField th_alert thresholds) then ALERT
           else NORMAL)
   }"

section \<open>The canonical station record and the normalizer\<close>

text \<open>The \<^verbatim>\<open>level\<close> of a record is a number or \<^verbatim>\<open>null\<close>; \<open>None\<close> is \<^verbatim>\<open>null\<close>.\<close>

record StationReading =
  station :: jsval
  river :: jsval
  level :: "jsnum option"
  alert :: string
  rateOfRise :: jsnum
  rising :: bool
  lastMeasured :: jsval
  coordinates :: coordinates
  isCritical :: bool

text \<open>The callback of \<^verbatim>\<open>stations.map\<close> in \<^verbatim>\<open>parseRiverData\<close>.\<close>

definition toReading :: "string \<Rightarrow> jsval \<Rightarrow> StationReading option" where
  "toReading now raw = do {
     stationName \<leftarrow> getStationName raw;
     riverName \<leftarrow> getRiverName raw;
     lv \<leftarrow> getWaterLevel raw;
     coords \<leftarrow> getCoordinates raw stationName;
     timestamp \<leftarrow> getTimestamp now raw;
     rate \<leftarrow> getRateOfRise raw;
     tier \<leftarrow> determineAlertLevel stationName lv;
     critical \<leftarrow> hasOwnProperty CRITICAL_STATIONS stationName;
     Some \<lparr>station = stationName,
           river = riverName,
           level = lv,
           alert = tier,
           rateOfRise = rate,
           rising = num_gt rate (Fin (1 / 1000)),
           lastMeasured = timestamp,
           coordinates = coords,
           isCritical = critical\<rparr>
   }"

text \<open>
  The value that \<^verbatim>\<open>parseRiverData\<close> maps over, for a truthy payload. It starts as
  the empty array.
\<close>

definition selectStations :: "jsval \<Rightarrow> jsval option" where
  "selectStations rawData =
     (if isArray rawData then Some rawData
      else do {
        s \<leftarrow> getProp rawData ''stations'';
        if truthy s then Some s
        else do {
          d \<leftarrow> getProp rawData ''data'';
          Some (if truthy d then d else JArr [])
        }
      })"

text \<open>
  \<^verbatim>\<open>stations.map(...).filter(...)\<close>: only an array has a \<^verbatim>\<open>map\<close> method, calling
  it on any other truthy value throws a TypeError; an exception in the callback ends the
  whole call.
\<close>

definition parseRiverData :: "string \<Rightarrow> jsval \<Rightarrow> StationReading list option" where
  "parseRiverData now rawData =
     (if \<not> truthy rawData then Some []
      else do {
        stations \<leftarrow> selectStations rawData;
        case stations of
          JArr xs \<Rightarrow> do {
            readings \<leftarrow> those (map (toReading now) xs);
            Some (filter (\<lambda>r. level r \<noteq> None) readings)
          }
        | _ \<Rightarrow> None
      })"

section \<open>Sample data\<close>

text \<open>
  The eight records of \<^verbatim>\<open>getSampleData\<close>, as literals;
  \<^verbatim>\<open>new Date().toISOString()\<close> is the parameter \<open>now\<close>.
\<close>

definition getSampleData :: "string \<Rightarrow> StationReading list" where
  "getSampleData now =
     [\<lparr>station = JStr ''Nagalagam Street'', river = JStr ''Kelani Ganga'', level = Some (Fin (256 / 100)),
        alert = MAJOR_FLOOD, rateOfRise = Fin (15 / 1000), rising = True, lastMeasured = JStr now,
        coordinates = \<lparr>lat = JNum (Fin (696027 / 100000)), lng = JNum (Fin (7987858 / 100000))\<rparr>,
        isCritical = True\<rparr>,
      \<lparr>station = JStr ''Peradeniya'', river = JStr ''Mahaweli Ganga'', level = Some (Fin (1056 / 100)),
        alert = MAJOR_FLOOD, rateOfRise = Fin (595 / 1000), rising = True, lastMeasured = JStr now,
        coordinates = \<lparr>lat = JNum (Fin (726417 / 100000)), lng = JNum (Fin (8059362 / 100000))\<rparr>,
        isCritical = True\<rparr>,
      \<lparr>station = JStr ''Moragaswewa'', river = JStr ''Deduru Oya'', level = Some (Fin (833 / 100)),
        alert = MAJOR_FLOOD, rateOfRise = Fin (51 / 1000), rising = True, lastMeasured = JStr now,
        coordinates = \<lparr>lat = JNum (Fin (773187 / 100000)), lng = JNum (Fin (8024296 / 100000))\<rparr>,
        isCritical = True\<rparr>,
      \<lparr>station = JStr ''Thanthirimale'', river = JStr ''Malwathu Oya'', level = Some (Fin (1064 / 100)),
        alert = MAJOR_FLOOD, rateOfRise = Fin (- (33 / 1000)), rising = False, lastMeasured = JStr now,
        coordinates = \<lparr>lat = JNum (Fin (858076 / 100000)), lng = JNum (Fin (8028401 / 100000))\<rparr>,
        isCritical = True\<rparr>,
      \<lparr>station = JStr ''Hanwella'', river = JStr ''Kelani Ganga'', level = Some (Fin (969 / 100)),
        alert = MINOR_FLOOD, rateOfRise = Fin (- (87 / 1000)), rising = False, lastMeasured = JStr now,
        coordinates = \<lparr>lat = JNum (Fin (691049 / 100000)), lng = JNum (Fin (8008134 / 100000))\<rparr>,
        isCritical = False\<rparr>,
      \<lparr>station = JStr ''Glencourse'', river = JStr ''Kelani Ganga'', level = Some (Fin (1358 / 100)),
        alert = NORMAL, rateOfRise = Fin (- (190 / 1000)), rising = False, lastMeasured = JStr now,
        coordinates = \<lparr>lat = JNum (Fin (697574 / 100000)), lng = JNum (Fin (8018661 / 100000))\<rparr>,
        isCritical = False\<rparr>,
      \<lparr>station = JStr ''Rathnapura'', river = JStr ''Kalu Ganga'', level = Some (Fin (582 / 100)),
        alert = ALERT, rateOfRise = Fin (- (59 / 1000)), rising = False, lastMeasured = JStr now,
        coordinates = \<lparr>lat = JNum (Fin (668986 / 100000)), lng = JNum (Fin (8038028 / 100000))\<rparr>,
        isCritical = False\<rparr>,
      \<lparr>station = JStr ''Kalawellawa'', river = JStr ''Kalu Ganga'', level = Some (Fin (738 / 100)),
        alert = MINOR_FLOOD, rateOfRise = Fin (- (51 / 1000)), rising = False, lastMeasured = JStr now,
        coordinates = \<lparr>lat = JNum (Fin (663151 / 100000)), lng = JNum (Fin (8016073 / 100000))\<rparr>,
        isCritical = False\<rparr>]"

section \<open>Fetching\<close>

text \<open>
  What a \<^verbatim>\<open>fetch\<close> can end in: no response at all, or a response with its
  \<^verbatim>\<open>ok\<close> flag and its body, which is \<open>None\<close> when it is not JSON text.
\<close>

datatype fetch_outcome = TransportFailure | Response bool "jsval option"

text \<open>\<^verbatim>\<open>try { body } catch (error) { handler }\<close>.\<close>

definition try_catch :: "'a option \<Rightarrow> 'a option \<Rightarrow> 'a option" where
  "try_catch body handler = (case body of None \<Rightarrow> handler | Some v \<Rightarrow> Some v)"

text \<open>
  The network is the parameter \<open>net\<close>, from the URL to the outcome of its GET. In the
  \<^verbatim>\<open>try\<close> block, a rejected \<^verbatim>\<open>fetch\<close>, the \<^verbatim>\<open>throw\<close> on a status that is
  not ok and a rejected \<^verbatim>\<open>response.json()\<close> are exceptions.
\<close>

definition fetchFromSource :: "(string \<Rightarrow> fetch_outcome) \<Rightarrow> string \<Rightarrow> jsval option" where
  "fetchFromSource net url =
     try_catch
       (case net url of
          TransportFailure \<Rightarrow> None
        | Response ok body \<Rightarrow> if \<not> ok then None else body)
       (Some JNull)"

text \<open>\<^verbatim>\<open>!data || data.length === 0\<close>.\<close>

definition noData :: "jsval \<Rightarrow> bool" where
  "noData data = (\<not> truthy data \<or> lengthIsZero data)"

definition fetchRiverData :: "(string \<Rightarrow> fetch_outcome) \<Rightarrow> string \<Rightarrow> StationReading list option" where
  "fetchRiverData net now =
     try_catch
       (do {
          primary \<leftarrow> fetchFromSource net DATA_SOURCES_irrigation;
          data \<leftarrow> (if noData primary then fetchFromSource net DATA_SOURCES_dmc else Some primary);
          if noData data then Some (getSampleData now)
          else parseRiverData now data
        })
       (Some (getSampleData now))"

section \<open>Risk score\<close>

text \<open>\<^verbatim>\<open>s.includes(pat)\<close>: \<open>pat\<close> occurs in \<open>s\<close>.\<close>

fun str_includes :: "string \<Rightarrow> string \<Rightarrow> bool" where
  "str_includes [] pat = (pat = [])"
| "str_includes (c # cs) pat = (take (length pat) (c # cs) = pat \<or> str_includes cs pat)"

text \<open>\<^verbatim>\<open>Math.round\<close>: the nearest integer, a half rounding up.\<close>

definition js_round :: "rat \<Rightarrow> int" where
  "js_round x = \<lfloor>x + 1 / 2\<rfloor>"

text \<open>The \<^verbatim>\<open>risk\<close> that one pass of the loop computes for its station.\<close>

definition stationRisk :: "StationReading \<Rightarrow> int" where
  "stationRisk s =
     (if str_includes (alert s) ''Major'' then 40
      else if str_includes (alert s) ''Minor'' then 25
      else if str_includes (alert s) ''Alert'' then 10
      else 0) +
     (if rising s \<and> num_gt (rateOfRise s) (Fin (5 / 100)) then 20
      else if rising s then 10
      else 0)"

text \<open>
  One pass of the \<^verbatim>\<open>forEach\<close> loop on the pair
  \<^verbatim>\<open>(totalRisk, criticalStationRisk)\<close>.
\<close>

definition addStation :: "int \<times> int \<Rightarrow> StationReading \<Rightarrow> int \<times> int" where
  "addStation acc s =
     (case acc of
        (totalRisk, criticalStationRisk) \<Rightarrow>
          (let risk = stationRisk s
           in (totalRisk + risk,
               if isCritical s then criticalStationRisk + risk * 2 else criticalStationRisk)))"

text \<open>The two accumulators after the loop.\<close>

definition riskTotals :: "StationReading list \<Rightarrow> int \<times> int" where
  "riskTotals stations = foldl addStation (0, 0) stations"

text \<open>The argument is a list, so \<^verbatim>\<open>!stations\<close> is false.\<close>

definition calculateFloodRisk :: "StationReading list \<Rightarrow> int" where
  "calculateFloodRisk stations =
     (if length stations = 0 then 0
      else (case riskTotals stations of
              (totalRisk, criticalStationRisk) \<Rightarrow>
                js_round (min 100 (of_int (totalRisk + criticalStationRisk) /
                                   of_int (int (length stations) + 4)))))"

section \<open>Notions of the specification\<close>

text \<open>The severity order of the tiers: Normal, Alert, MinorFlood, MajorFlood.\<close>

definition severity :: "string \<Rightarrow> nat" where
  "severity tier =
     (if tier = MAJOR_FLOOD then 3
      else if tier = MINOR_FLOOD then 2
      else if tier = ALERT then 1
      else 0)"

text \<open>
  Classification as the specification words it: the thresholds of the station, else the
  default triple; the first of major, minor and alert that the level meets or exceeds, else
  Normal.
\<close>

definition spec_thresholds :: "string \<Rightarrow> thresholds" where
  "spec_thresholds name =
     (case map_of ALERT_THRESHOLDS name of Some t \<Rightarrow> t | None \<Rightarrow> DEFAULT_THRESHOLDS)"

definition spec_classify :: "string \<Rightarrow> jsnum \<Rightarrow> string" where
  "spec_classify name l =
     (if num_ge l (Fin (th_major (spec_thresholds name))) then MAJOR_FLOOD
      else if num_ge l (Fin (th_minor (spec_thresholds name))) then MINOR_FLOOD
      else if num_ge l (Fin (th_alert (spec_thresholds name))) then ALERT
      else NORMAL)"

text \<open>
  Coordinates as the specification words them, when the payload gives none: the registry
  entry of the name, else the centre of Sri Lanka.
\<close>

definition spec_coordinates :: "string \<Rightarrow> coordinates" where
  "spec_coordinates name =
     (case map_of CRITICAL_STATIONS name of
        Some entry \<Rightarrow> \<lparr>lat = JNum (Fin (cs_lat entry)), lng = JNum (Fin (cs_lng entry))\<rparr>
      | None \<Rightarrow> SRI_LANKA_CENTER)"

text \<open>
  What \<^verbatim>\<open>fetchRiverData\<close> itself takes as a source without data: no response, a
  status that is not ok, a body that is not JSON (each makes \<^verbatim>\<open>fetchFromSource\<close>
  return \<^verbatim>\<open>null\<close>), or data that its test \<^verbatim>\<open>!data || data.length === 0\<close>
  accepts.
\<close>

fun failsDataTest :: "fetch_outcome \<Rightarrow> bool" where
  "failsDataTest TransportFailure = True"
| "failsDataTest (Response ok None) = True"
| "failsDataTest (Response ok (Some data)) = (if ok then noData data else True)"

text \<open>
  A source is empty or unavailable, as the specification words it: transport failure, a
  status that is not a success, a malformed payload (a body that is not JSON, or a payload
  in which what is selected is not an array), or an empty result (a payload that holds no
  raw station).
\<close>

definition holdsNoStation :: "jsval \<Rightarrow> bool" where
  "holdsNoStation data =
     (if truthy data
      then (case selectStations data of Some (JArr xs) \<Rightarrow> xs = [] | _ \<Rightarrow> True)
      else True)"

fun emptyOrUnavailable :: "fetch_outcome \<Rightarrow> bool" where
  "emptyOrUnavailable TransportFailure = True"
| "emptyOrUnavailable (Response ok None) = True"
| "emptyOrUnavailable (Response ok (Some data)) = (if ok then holdsNoStation data else True)"

text \<open>The payload has a truthy property of this name.\<close>

definition hasTruthy :: "jsval \<Rightarrow> string \<Rightarrow> bool" where
  "hasTruthy v k = (case getProp v k of Some x \<Rightarrow> truthy x | None \<Rightarrow> False)"

section \<open>Risk score: what enters the numerator\<close>

lemma foldl_addStation:
  "foldl addStation (t, c) ss =
     (t + (\<Sum>s\<leftarrow>ss. stationRisk s),
      c + (\<Sum>s\<leftarrow>ss. if isCritical s then 2 * stationRisk s else 0))"
  by (induction ss arbitrary: t c) (simp_all add: addStation_def Let_def)

lemma riskTotals_sums:
  "riskTotals ss =
     (\<Sum>s\<leftarrow>ss. stationRisk s, \<Sum>s\<leftarrow>ss. if isCritical s then 2 * stationRisk s else 0)"
  using foldl_addStation [of 0 0 ss] by (simp add: riskTotals_def)

lemma weighted_sum:
  "(\<Sum>s\<leftarrow>ss. stationRisk s) + (\<Sum>s\<leftarrow>ss. if isCritical s then 2 * stationRisk s else 0) =
   (\<Sum>s\<leftarrow>ss. if isCritical s then 3 * stationRisk s else stationRisk s)"
  by (induction ss) simp_all

text \<open>
  C1, as the code has it. After the loop, \<^verbatim>\<open>totalRisk\<close> holds the contribution of
  every station once, and \<^verbatim>\<open>criticalStationRisk\<close> holds twice the contribution of
  every critical station (\<^verbatim>\<open>risk * 2\<close>). In the numerator
  \<^verbatim>\<open>totalRisk + criticalStationRisk\<close> of the score the contribution of a critical
  station therefore counts three times, that of any other station once.
\<close>

theorem C1_critical_weight:
  "riskTotals ss =
     (\<Sum>s\<leftarrow>ss. stationRisk s, \<Sum>s\<leftarrow>ss. if isCritical s then 2 * stationRisk s else 0) \<and>
   fst (riskTotals ss) + snd (riskTotals ss) =
     (\<Sum>s\<leftarrow>ss. if isCritical s then 3 * stationRisk s else stationRisk s) \<and>
   calculateFloodRisk ss =
     (if length ss = 0 then 0
      else js_round
             (min 100
                (of_int (\<Sum>s\<leftarrow>ss. if isCritical s then 3 * stationRisk s else stationRisk s) /
                 of_int (int (length ss) + 4))))"
proof -
  have "fst (riskTotals ss) + snd (riskTotals ss) =
        (\<Sum>s\<leftarrow>ss. if isCritical s then 3 * stationRisk s else stationRisk s)"
    by (simp add: riskTotals_sums weighted_sum)
  moreover have "calculateFloodRisk ss =
     (if length ss = 0 then 0
      else js_round (min 100 (of_int (fst (riskTotals ss) + snd (riskTotals ss)) /
                              of_int (int (length ss) + 4))))"
    by (simp add: calculateFloodRisk_def split: prod.splits)
  ultimately show ?thesis by (simp only: riskTotals_sums simp_thms)
qed

text \<open>
  One critical station in major flood that is not rising: its contribution is 40, the
  accumulators end as 40 and 80, and the score is 120 / 5 = 24.
\<close>

theorem C1_critical_weight_witness:
  "riskTotals
     [\<lparr>station = JStr ''Peradeniya'', river = JStr ''Mahaweli Ganga'',
        level = Some (Fin 9), alert = MAJOR_FLOOD, rateOfRise = Fin 0, rising = False,
        lastMeasured = JStr ''2025-01-01T00:00:00.000Z'',
        coordinates = \<lparr>lat = JNum (Fin (726417 / 100000)), lng = JNum (Fin (8059362 / 100000))\<rparr>,
        isCritical = True\<rparr>] = (40, 80)"
  using C1_critical_weight
    [of "[\<lparr>station = JStr ''Peradeniya'', river = JStr ''Mahaweli Ganga'',
        level = Some (Fin 9), alert = MAJOR_FLOOD, rateOfRise = Fin 0, rising = False,
        lastMeasured = JStr ''2025-01-01T00:00:00.000Z'',
        coordinates = \<lparr>lat = JNum (Fin (726417 / 100000)), lng = JNum (Fin (8059362 / 100000))\<rparr>,
        isCritical = True\<rparr>]"]
  by (simp add: stationRisk_def MAJOR_FLOOD_def num_gt_def)

text \<open>
  C1 as the claim words it fails there: counted twice, the numerator would be 80 and the
  score 16.
\<close>

theorem C1_counterexample:
  "fst (riskTotals
     [\<lparr>station = JStr ''Peradeniya'', river = JStr ''Mahaweli Ganga'',
        level = Some (Fin 9), alert = MAJOR_FLOOD, rateOfRise = Fin 0, rising = False,
        lastMeasured = JStr ''2025-01-01T00:00:00.000Z'',
        coordinates = \<lparr>lat = JNum (Fin (726417 / 100000)), lng = JNum (Fin (8059362 / 100000))\<rparr>,
        isCritical = True\<rparr>]) +
   snd (riskTotals
     [\<lparr>station = JStr ''Peradeniya'', river = JStr ''Mahaweli Ganga'',
        level = Some (Fin 9), alert = MAJOR_FLOOD, rateOfRise = Fin 0, rising = False,
        lastMeasured = JStr ''2025-01-01T00:00:00.000Z'',
        coordinates = \<lparr>lat = JNum (Fin (726417 / 100000)), lng = JNum (Fin (8059362 / 100000))\<rparr>,
        isCritical = True\<rparr>]) \<noteq>
   2 * stationRisk
     \<lparr>station = JStr ''Peradeniya'', river = JStr ''Mahaweli Ganga'',
        level = Some (Fin 9), alert = MAJOR_FLOOD, rateOfRise = Fin 0, rising = False,
        lastMeasured = JStr ''2025-01-01T00:00:00.000Z'',
        coordinates = \<lparr>lat = JNum (Fin (726417 / 100000)), lng = JNum (Fin (8059362 / 100000))\<rparr>,
        isCritical = True\<rparr> \<and>
   calculateFloodRisk
     [\<lparr>station = JStr ''Peradeniya'', river = JStr ''Mahaweli Ganga'',
        level = Some (Fin 9), alert = MAJOR_FLOOD, rateOfRise = Fin 0, rising = False,
        lastMeasured = JStr ''2025-01-01T00:00:00.000Z'',
        coordinates = \<lparr>lat = JNum (Fin (726417 / 100000)), lng = JNum (Fin (8059362 / 100000))\<rparr>,
        isCritical = True\<rparr>] = 24"
  by code_simp

section \<open>Risk score: range\<close>

lemma stationRisk_nonneg: "0 \<le> stationRisk s"
  by (simp add: stationRisk_def)

lemma riskTotals_nonneg: "0 \<le> fst (riskTotals ss) + snd (riskTotals ss)"
proof -
  have "0 \<le> (\<Sum>s\<leftarrow>ss. if isCritical s then 3 * stationRisk s else stationRisk s)"
    by (rule sum_list_nonneg) (auto simp: stationRisk_nonneg)
  then show ?thesis by (simp add: riskTotals_sums weighted_sum)
qed

lemma js_round_range: "0 \<le> x \<Longrightarrow> x \<le> 100 \<Longrightarrow> 0 \<le> js_round x \<and> js_round x \<le> 100"
  unfolding js_round_def by (simp add: le_floor_iff floor_le_iff)

text \<open>
  C5. For every list of station records, \<^verbatim>\<open>calculateFloodRisk\<close> returns an integer
  from 0 to 100, and for the empty list it returns 0.
\<close>

theorem C5_score_range:
  "0 \<le> calculateFloodRisk ss \<and> calculateFloodRisk ss \<le> 100 \<and> calculateFloodRisk [] = 0"
proof -
  obtain t c where tc: "riskTotals ss = (t, c)" by (cases "riskTotals ss")
  have nn: "0 \<le> t + c" using riskTotals_nonneg [of ss] tc by simp
  let ?q = "min 100 (of_int (t + c) / of_int (int (length ss) + 4) :: rat)"
  have "0 \<le> ?q" using nn by simp
  moreover have "?q \<le> 100" by simp
  ultimately have "0 \<le> js_round ?q \<and> js_round ?q \<le> 100" by (rule js_round_range)
  then show ?thesis using tc by (simp add: calculateFloodRisk_def)
qed

text \<open>The eight sample records score 690 / 12 = 57.5, rounded to 58.\<close>

theorem C5_score_range_witness:
  "calculateFloodRisk (getSampleData ''2025-01-01T00:00:00.000Z'') = 58 \<and>
   0 \<le> calculateFloodRisk (getSampleData ''2025-01-01T00:00:00.000Z'') \<and>
   calculateFloodRisk (getSampleData ''2025-01-01T00:00:00.000Z'') \<le> 100"
proof -
  have "calculateFloodRisk (getSampleData ''2025-01-01T00:00:00.000Z'') = 58" by code_simp
  with C5_score_range [of "getSampleData ''2025-01-01T00:00:00.000Z''"] show ?thesis by blast
qed

section \<open>The normalizer: which records it keeps\<close>

lemma those_map_Some: "those os = Some rs \<Longrightarrow> os = map Some rs"
  by (induction os arbitrary: rs) (auto split: option.splits)

lemma toReading_level: "toReading now x = Some r \<Longrightarrow> getWaterLevel x = Some (level r)"
  by (auto simp: toReading_def split: Option.bind_splits)

lemma filter_readings:
  "those (map (toReading now) xs) = Some rs \<Longrightarrow>
   map Some (filter (\<lambda>r. level r \<noteq> None) rs) =
   map (toReading now) (filter (\<lambda>x. getWaterLevel x \<noteq> Some None) xs)"
proof (induction xs arbitrary: rs)
  case Nil
  then show ?case by simp
next
  case (Cons x xs)
  from Cons.prems obtain r rs' where r: "toReading now x = Some r"
    and rs': "those (map (toReading now) xs) = Some rs'" and rs: "rs = r # rs'"
    by (auto split: option.splits)
  from r have "getWaterLevel x = Some (level r)" by (rule toReading_level)
  with Cons.IH [OF rs'] r rs show ?case by auto
qed

text \<open>
  The level that \<^verbatim>\<open>getWaterLevel\<close> extracts is \<^verbatim>\<open>null\<close> exactly when none of
  the four aliases is truthy: absent, \<^verbatim>\<open>null\<close>, 0, the empty string or
  \<^verbatim>\<open>false\<close>.
\<close>

lemma getWaterLevel_null_iff:
  "getWaterLevel x = Some None \<longleftrightarrow>
   \<not> nullish x \<and> \<not> hasTruthy x ''level_m'' \<and> \<not> hasTruthy x ''level'' \<and>
   \<not> hasTruthy x ''water_level'' \<and> \<not> hasTruthy x ''Level''"
  by (cases x) (auto simp: getWaterLevel_def hasTruthy_def js_or_def parseFloat_def Let_def
      split: Option.bind_splits option.splits if_splits)

text \<open>
  C2, as the code has it. Every record of the list that \<^verbatim>\<open>parseRiverData\<close> returns
  has a level that is not \<^verbatim>\<open>null\<close>, and the list holds the records of exactly those
  raw stations whose extracted level is not \<^verbatim>\<open>null\<close>, in their order: a raw station
  none of whose level aliases is truthy is left out, never kept with a default level. The
  level of a kept record is the result of \<^verbatim>\<open>parseFloat\<close>, which may be
  \<^verbatim>\<open>NaN\<close>.
\<close>

theorem C2_levels_not_null:
  assumes "parseRiverData now rawData = Some readings"
  shows "(\<forall>r\<in>set readings. level r \<noteq> None) \<and>
         (\<forall>xs. selectStations rawData = Some (JArr xs) \<longrightarrow>
            map Some readings =
            map (toReading now) (filter (\<lambda>x. getWaterLevel x \<noteq> Some None) xs))"
proof (cases "truthy rawData")
  case False
  with assms have "readings = []" by (simp add: parseRiverData_def)
  moreover have "selectStations rawData = Some (JArr xs) \<Longrightarrow> xs = []" for xs
    using False by (cases rawData) (auto simp: selectStations_def)
  ultimately show ?thesis by auto
next
  case True
  with assms obtain xs rs where sel: "selectStations rawData = Some (JArr xs)"
    and th: "those (map (toReading now) xs) = Some rs"
    and out: "readings = filter (\<lambda>r. level r \<noteq> None) rs"
    by (auto simp: parseRiverData_def split: Option.bind_splits jsval.splits)
  from filter_readings [OF th] out have "map Some readings =
      map (toReading now) (filter (\<lambda>x. getWaterLevel x \<noteq> Some None) xs)"
    by (simp only:)
  with sel out show ?thesis by auto
qed

text \<open>
  Two raw stations, the second without any level alias: one record comes out, and its
  level is not \<^verbatim>\<open>null\<close>.
\<close>

theorem C2_levels_not_null_witness:
  "\<exists>readings.
     parseRiverData ''2025-01-01T00:00:00.000Z''
       (JArr [JObj [(''station'', JStr ''Peradeniya''), (''level'', JNum (Fin 8))],
            JObj [(''station'', JStr ''Hanwella''), (''rate'', JNum (Fin (1 / 10)))]]) = Some readings \<and>
     length readings = 1 \<and> (\<forall>r\<in>set readings. level r \<noteq> None)"
proof -
  have "map_option length
          (parseRiverData ''2025-01-01T00:00:00.000Z''
             (JArr [JObj [(''station'', JStr ''Peradeniya''), (''level'', JNum (Fin 8))],
            JObj [(''station'', JStr ''Hanwella''), (''rate'', JNum (Fin (1 / 10)))]])) = Some 1"
    by code_simp
  then obtain readings where h:
    "parseRiverData ''2025-01-01T00:00:00.000Z''
       (JArr [JObj [(''station'', JStr ''Peradeniya''), (''level'', JNum (Fin 8))],
            JObj [(''station'', JStr ''Hanwella''), (''rate'', JNum (Fin (1 / 10)))]]) = Some readings"
    and n: "length readings = 1"
    by auto
  from C2_levels_not_null [OF h] n h show ?thesis by blast
qed

text \<open>
  C2 as the claim words it fails on a level that is truthy and does not parse: the station
  is kept, with level \<^verbatim>\<open>NaN\<close>.
\<close>

theorem C2_counterexample:
  "map_option (map level)
     (parseRiverData ''2025-01-01T00:00:00.000Z''
        (JArr [JObj [(''station'', JStr ''Hanwella''), (''level'', JStr ''abc'')]])) =
   Some [Some NaN]"
  by code_simp

section \<open>The normalizer: payload shapes\<close>

text \<open>
  C7, as the code has it. For every list \<open>L\<close> of raw stations, the payloads
  \<^verbatim>\<open>{data: L}\<close> and \<^verbatim>\<open>{stations: L}\<close> and the bare array \<open>L\<close> give the same
  result; a payload that is not an array and has no truthy \<^verbatim>\<open>stations\<close> and no truthy
  \<^verbatim>\<open>data\<close> property gives the empty list.
\<close>

theorem C7_payload_shapes:
  "parseRiverData now (JObj [(''data'', JArr L)]) = parseRiverData now (JArr L) \<and>
   parseRiverData now (JObj [(''stations'', JArr L)]) = parseRiverData now (JArr L) \<and>
   (\<not> isArray rawData \<and> \<not> hasTruthy rawData ''stations'' \<and> \<not> hasTruthy rawData ''data'' \<longrightarrow>
      parseRiverData now rawData = Some [])"
proof (intro conjI impI)
  show "parseRiverData now (JObj [(''data'', JArr L)]) = parseRiverData now (JArr L)"
    by (simp add: parseRiverData_def selectStations_def)
  show "parseRiverData now (JObj [(''stations'', JArr L)]) = parseRiverData now (JArr L)"
    by (simp add: parseRiverData_def selectStations_def)
next
  assume "\<not> isArray rawData \<and> \<not> hasTruthy rawData ''stations'' \<and> \<not> hasTruthy rawData ''data''"
  then show "parseRiverData now rawData = Some []"
    by (cases rawData)
       (auto simp: parseRiverData_def selectStations_def hasTruthy_def split: option.splits)
qed

theorem C7_payload_shapes_witness:
  "\<not> isArray (JObj [(''rivers'', JArr [JNum (Fin 1)])]) \<and>
   \<not> hasTruthy (JObj [(''rivers'', JArr [JNum (Fin 1)])]) ''stations'' \<and>
   \<not> hasTruthy (JObj [(''rivers'', JArr [JNum (Fin 1)])]) ''data'' \<and>
   parseRiverData ''2025-01-01T00:00:00.000Z'' (JObj [(''rivers'', JArr [JNum (Fin 1)])]) = Some [] \<and>
   parseRiverData ''2025-01-01T00:00:00.000Z''
     (JObj [(''data'', JArr [JObj [(''name'', JStr ''Glencourse''), (''Level'', JStr ''13.58'')]])]) =
   parseRiverData ''2025-01-01T00:00:00.000Z''
     (JArr [JObj [(''name'', JStr ''Glencourse''), (''Level'', JStr ''13.58'')]])"
  using C7_payload_shapes
    [of "''2025-01-01T00:00:00.000Z''"
        "[JObj [(''name'', JStr ''Glencourse''), (''Level'', JStr ''13.58'')]]"
        "JObj [(''rivers'', JArr [JNum (Fin 1)])]"]
  by (simp add: hasTruthy_def)

text \<open>
  What is selected must be an array: on any other value \<^verbatim>\<open>stations.map\<close> is not a
  function.
\<close>

lemma parseRiverData_not_array:
  "truthy rawData \<Longrightarrow> selectStations rawData = Some v \<Longrightarrow> \<not> isArray v \<Longrightarrow>
   parseRiverData now rawData = None"
  by (cases v) (simp_all add: parseRiverData_def)

text \<open>
  C7 as the claim words it fails on \<^verbatim>\<open>{stations: 5}\<close>, which is none of the three
  shapes: \<^verbatim>\<open>parseRiverData\<close> throws, and \<^verbatim>\<open>fetchRiverData\<close> answers with the
  sample data.
\<close>

theorem C7_counterexample:
  "parseRiverData ''2025-01-01T00:00:00.000Z'' (JObj [(''stations'', JNum (Fin 5))]) = None \<and>
   fetchRiverData (\<lambda>url. Response True (Some (JObj [(''stations'', JNum (Fin 5))])))
     ''2025-01-01T00:00:00.000Z'' = Some (getSampleData ''2025-01-01T00:00:00.000Z'')"
  by (simp add: parseRiverData_def selectStations_def fetchRiverData_def fetchFromSource_def
      try_catch_def noData_def)

section \<open>Fetching never throws\<close>

lemma fetchFromSource_failsDataTest:
  "failsDataTest (net url) \<Longrightarrow> \<exists>v. fetchFromSource net url = Some v \<and> noData v"
  by (cases "net url" rule: failsDataTest.cases)
     (auto simp: fetchFromSource_def try_catch_def noData_def split: if_splits)

lemma fetchFromSource_data:
  "net url = Response True (Some data) \<Longrightarrow> fetchFromSource net url = Some data"
  by (simp add: fetchFromSource_def try_catch_def)

lemma try_catch_total: "\<exists>v. try_catch body (Some h) = Some v"
  by (simp add: try_catch_def split: option.splits)

text \<open>
  C6, as the code has it. \<^verbatim>\<open>fetchRiverData\<close> returns a list whatever the two GETs
  end in and whatever they deliver: no exception passes its \<^verbatim>\<open>catch\<close>. It returns
  the sample data, which has exactly 8 records, when each of the two sources gives no
  response, a status that is not ok, a body that is not JSON, or data that is falsy or has
  length 0. A primary source that delivers any other data is final: the result is the
  normalization of that data, or the sample data when the normalization throws, whatever
  the secondary source holds. The same goes for the secondary source after a primary one
  that failed the test.
\<close>

theorem C6_never_raises:
  "(\<exists>readings. fetchRiverData net now = Some readings) \<and>
   (failsDataTest (net DATA_SOURCES_irrigation) \<and> failsDataTest (net DATA_SOURCES_dmc) \<longrightarrow>
      fetchRiverData net now = Some (getSampleData now)) \<and>
   length (getSampleData now) = 8 \<and>
   (\<forall>data. net DATA_SOURCES_irrigation = Response True (Some data) \<and> \<not> noData data \<longrightarrow>
      fetchRiverData net now =
        try_catch (parseRiverData now data) (Some (getSampleData now))) \<and>
   (\<forall>data. failsDataTest (net DATA_SOURCES_irrigation) \<and>
      net DATA_SOURCES_dmc = Response True (Some data) \<and> \<not> noData data \<longrightarrow>
      fetchRiverData net now =
        try_catch (parseRiverData now data) (Some (getSampleData now)))"
proof (intro conjI impI allI)
  show "\<exists>readings. fetchRiverData net now = Some readings"
    unfolding fetchRiverData_def by (rule try_catch_total)
next
  assume "failsDataTest (net DATA_SOURCES_irrigation) \<and> failsDataTest (net DATA_SOURCES_dmc)"
  then obtain p q where p: "fetchFromSource net DATA_SOURCES_irrigation = Some p" "noData p"
    and q: "fetchFromSource net DATA_SOURCES_dmc = Some q" "noData q"
    using fetchFromSource_failsDataTest by blast
  then show "fetchRiverData net now = Some (getSampleData now)"
    by (simp add: fetchRiverData_def try_catch_def)
next
  show "length (getSampleData now) = 8" by (simp add: getSampleData_def)
next
  fix data
  assume "net DATA_SOURCES_irrigation = Response True (Some data) \<and> \<not> noData data"
  then have "fetchFromSource net DATA_SOURCES_irrigation = Some data" and "\<not> noData data"
    by (simp_all add: fetchFromSource_data)
  then show "fetchRiverData net now =
      try_catch (parseRiverData now data) (Some (getSampleData now))"
    by (simp add: fetchRiverData_def)
next
  fix data
  assume a: "failsDataTest (net DATA_SOURCES_irrigation) \<and>
      net DATA_SOURCES_dmc = Response True (Some data) \<and> \<not> noData data"
  then obtain p where "fetchFromSource net DATA_SOURCES_irrigation = Some p" "noData p"
    using fetchFromSource_failsDataTest by blast
  moreover from a have "fetchFromSource net DATA_SOURCES_dmc = Some data" and "\<not> noData data"
    by (simp_all add: fetchFromSource_data)
  ultimately show "fetchRiverData net now =
      try_catch (parseRiverData now data) (Some (getSampleData now))"
    by (simp add: fetchRiverData_def)
qed

text \<open>
  First: the primary source does not answer and the secondary one answers with an error
  status; the result is the sample data. Second: the primary source delivers the empty
  array and the secondary one a station; the result is the one record of that station.
\<close>

theorem C6_never_raises_witness:
  "failsDataTest ((\<lambda>url. if url = DATA_SOURCES_irrigation then TransportFailure else Response False None) DATA_SOURCES_irrigation) \<and>
   failsDataTest ((\<lambda>url. if url = DATA_SOURCES_irrigation then TransportFailure else Response False None) DATA_SOURCES_dmc) \<and>
   fetchRiverData (\<lambda>url. if url = DATA_SOURCES_irrigation then TransportFailure else Response False None)
     ''2025-01-01T00:00:00.000Z'' = Some (getSampleData ''2025-01-01T00:00:00.000Z'') \<and>
   failsDataTest
     ((\<lambda>url. if url = DATA_SOURCES_irrigation then Response True (Some (JArr []))
                else Response True (Some (JArr [JObj [(''station'', JStr ''Peradeniya''), (''level'', JNum (Fin 8))]]))) DATA_SOURCES_irrigation) \<and>
   \<not> noData (JArr [JObj [(''station'', JStr ''Peradeniya''), (''level'', JNum (Fin 8))]]) \<and>
   map_option (map (\<lambda>r. (station r, level r, alert r)))
     (fetchRiverData
        (\<lambda>url. if url = DATA_SOURCES_irrigation then Response True (Some (JArr []))
                else Response True (Some (JArr [JObj [(''station'', JStr ''Peradeniya''), (''level'', JNum (Fin 8))]])))
        ''2025-01-01T00:00:00.000Z'') =
     Some [(JStr ''Peradeniya'', Some (Fin 8), MAJOR_FLOOD)]"
proof -
  have one: "fetchRiverData (\<lambda>url. if url = DATA_SOURCES_irrigation then TransportFailure else Response False None)
      ''2025-01-01T00:00:00.000Z'' = Some (getSampleData ''2025-01-01T00:00:00.000Z'')"
    using C6_never_raises
      [of "\<lambda>url. if url = DATA_SOURCES_irrigation then TransportFailure else Response False None"
          "''2025-01-01T00:00:00.000Z''"]
    by (simp add: DATA_SOURCES_irrigation_def DATA_SOURCES_dmc_def)
  have parsed: "map_option (map (\<lambda>r. (station r, level r, alert r)))
      (try_catch (parseRiverData ''2025-01-01T00:00:00.000Z''
                    (JArr [JObj [(''station'', JStr ''Peradeniya''), (''level'', JNum (Fin 8))]]))
         (Some (getSampleData ''2025-01-01T00:00:00.000Z''))) =
      Some [(JStr ''Peradeniya'', Some (Fin 8), MAJOR_FLOOD)]"
    by code_simp
  have two: "fetchRiverData
        (\<lambda>url. if url = DATA_SOURCES_irrigation then Response True (Some (JArr []))
                else Response True (Some (JArr [JObj [(''station'', JStr ''Peradeniya''), (''level'', JNum (Fin 8))]])))
        ''2025-01-01T00:00:00.000Z'' =
      try_catch (parseRiverData ''2025-01-01T00:00:00.000Z''
                   (JArr [JObj [(''station'', JStr ''Peradeniya''), (''level'', JNum (Fin 8))]]))
        (Some (getSampleData ''2025-01-01T00:00:00.000Z''))"
    using C6_never_raises
      [of "\<lambda>url. if url = DATA_SOURCES_irrigation then Response True (Some (JArr []))
                else Response True (Some (JArr [JObj [(''station'', JStr ''Peradeniya''), (''level'', JNum (Fin 8))]]))"
          "''2025-01-01T00:00:00.000Z''"]
    by (simp add: DATA_SOURCES_irrigation_def DATA_SOURCES_dmc_def noData_def)
  from one two parsed show ?thesis
    by (simp add: DATA_SOURCES_irrigation_def DATA_SOURCES_dmc_def noData_def)
qed

text \<open>
  C6 as the claim words it fails when both sources answer \<^verbatim>\<open>{stations: []}\<close>. Each
  is an empty result, but the data is truthy and has no \<^verbatim>\<open>length\<close>, so the test
  lets it pass: the secondary source is not tried, and the result is the empty list, not
  the 8 sample records.
\<close>

theorem C6_counterexample:
  "emptyOrUnavailable ((\<lambda>url. Response True (Some (JObj [(''stations'', JArr [])]))) DATA_SOURCES_irrigation) \<and>
   emptyOrUnavailable ((\<lambda>url. Response True (Some (JObj [(''stations'', JArr [])]))) DATA_SOURCES_dmc) \<and>
   fetchRiverData (\<lambda>url. Response True (Some (JObj [(''stations'', JArr [])])))
     ''2025-01-01T00:00:00.000Z'' = Some [] \<and>
   getSampleData ''2025-01-01T00:00:00.000Z'' \<noteq> []"
  by (simp add: holdsNoStation_def selectStations_def fetchRiverData_def fetchFromSource_def
      try_catch_def noData_def parseRiverData_def getSampleData_def)

text \<open>
  Such a primary source also hides a secondary one that has stations: the result is the
  empty list.
\<close>

lemma fetchRiverData_empty_primary:
  assumes "net DATA_SOURCES_irrigation = Response True (Some (JObj [(''stations'', JArr [])]))"
  shows "fetchRiverData net now = Some []"
  using assms
  by (simp add: fetchRiverData_def fetchFromSource_def try_catch_def noData_def
      parseRiverData_def selectStations_def)

text \<open>
  A payload on which \<^verbatim>\<open>parseRiverData\<close> throws is absorbed as well: the result is
  the sample data.
\<close>

lemma fetchRiverData_parse_error:
  assumes "net DATA_SOURCES_irrigation = Response True (Some data)"
    and "\<not> noData data" and "parseRiverData now data = None"
  shows "fetchRiverData net now = Some (getSampleData now)"
  using assms by (simp add: fetchRiverData_def fetchFromSource_def try_catch_def)

section \<open>Alert classification: monotonicity and the thresholds\<close>

lemma num_ge_mono: "num_ge x c \<Longrightarrow> num_le x y \<Longrightarrow> num_ge y c"
  by (cases x; cases y; cases c) (auto simp: num_ge_def num_le_def)

lemma level_ge_mono: "level_ge (Some x) c \<Longrightarrow> num_le x y \<Longrightarrow> level_ge (Some y) c"
  by (cases c) (auto intro: num_ge_mono)

lemma labels_distinct:
  "MAJOR_FLOOD \<noteq> MINOR_FLOOD" "MAJOR_FLOOD \<noteq> ALERT" "MAJOR_FLOOD \<noteq> NORMAL"
  "MINOR_FLOOD \<noteq> ALERT" "MINOR_FLOOD \<noteq> NORMAL" "ALERT \<noteq> NORMAL"
  by (simp_all add: MAJOR_FLOOD_def MINOR_FLOOD_def ALERT_def NORMAL_def)

lemma severity_labels:
  "severity MAJOR_FLOOD = 3" "severity MINOR_FLOOD = 2" "severity ALERT = 1" "severity NORMAL = 0"
  using labels_distinct by (auto simp: severity_def)

lemma determineAlertLevel_stringifiable:
  "stringifiable name \<Longrightarrow> \<exists>a. determineAlertLevel name l = Some a"
  by (simp add: determineAlertLevel_def tableGet_def Let_def)

lemma determineAlertLevel_mono:
  assumes "num_le x y"
    and "determineAlertLevel name (Some x) = Some a"
    and "determineAlertLevel name (Some y) = Some b"
  shows "severity a \<le> severity b"
  using assms level_ge_mono [OF _ assms(1)]
  by (auto simp: determineAlertLevel_def Let_def severity_labels
      split: Option.bind_splits if_splits)

lemma determineAlertLevel_label:
  "determineAlertLevel name l = Some a \<Longrightarrow> a \<in> set [NORMAL, ALERT, MINOR_FLOOD, MAJOR_FLOOD]"
  by (auto simp: determineAlertLevel_def Let_def split: Option.bind_splits if_splits)

text \<open>
  C8. For every station name and all levels \<open>x \<le> y\<close>, the tier of \<open>y\<close> is at least
  as severe as the tier of \<open>x\<close>, in the order Normal, Alert, MinorFlood, MajorFlood;
  both are among these four.
\<close>

theorem C8_monotonic:
  assumes "num_le x y"
  shows "\<exists>a b. determineAlertLevel (JStr name) (Some x) = Some a \<and>
               determineAlertLevel (JStr name) (Some y) = Some b \<and>
               a \<in> set [NORMAL, ALERT, MINOR_FLOOD, MAJOR_FLOOD] \<and>
               b \<in> set [NORMAL, ALERT, MINOR_FLOOD, MAJOR_FLOOD] \<and>
               severity a \<le> severity b"
proof -
  obtain a where a: "determineAlertLevel (JStr name) (Some x) = Some a"
    using determineAlertLevel_stringifiable [of "JStr name"] by auto
  obtain b where b: "determineAlertLevel (JStr name) (Some y) = Some b"
    using determineAlertLevel_stringifiable [of "JStr name"] by auto
  from determineAlertLevel_mono [OF assms a b] a b
    determineAlertLevel_label [OF a] determineAlertLevel_label [OF b]
  show ?thesis by blast
qed

text \<open>Peradeniya at 5.4 and at 6.5 metres: Normal, then Minor Flood.\<close>

theorem C8_monotonic_witness:
  "num_le (Fin (54 / 10)) (Fin (65 / 10)) \<and>
   determineAlertLevel (JStr ''Peradeniya'') (Some (Fin (54 / 10))) = Some NORMAL \<and>
   determineAlertLevel (JStr ''Peradeniya'') (Some (Fin (65 / 10))) = Some MINOR_FLOOD \<and>
   (\<exists>a b. determineAlertLevel (JStr ''Peradeniya'') (Some (Fin (54 / 10))) = Some a \<and>
          determineAlertLevel (JStr ''Peradeniya'') (Some (Fin (65 / 10))) = Some b \<and>
          a \<in> set [NORMAL, ALERT, MINOR_FLOOD, MAJOR_FLOOD] \<and>
          b \<in> set [NORMAL, ALERT, MINOR_FLOOD, MAJOR_FLOOD] \<and>
          severity a \<le> severity b)"
proof -
  have le: "num_le (Fin (54 / 10)) (Fin (65 / 10))" by (simp add: num_le_def)
  have lo: "determineAlertLevel (JStr ''Peradeniya'') (Some (Fin (54 / 10))) = Some NORMAL"
    by (simp add: determineAlertLevel_def tableGet_def ALERT_THRESHOLDS_def num_ge_def)
  have hi: "determineAlertLevel (JStr ''Peradeniya'') (Some (Fin (65 / 10))) = Some MINOR_FLOOD"
    by (simp add: determineAlertLevel_def tableGet_def ALERT_THRESHOLDS_def num_ge_def)
  from C8_monotonic [OF le, of "''Peradeniya''"] le lo hi show ?thesis by blast
qed

text \<open>The same holds for a name that is not a string, whenever the lookup does not throw.\<close>

lemma determineAlertLevel_mono_any:
  assumes "num_le x y" and "stringifiable name"
  shows "\<exists>a b. determineAlertLevel name (Some x) = Some a \<and>
               determineAlertLevel name (Some y) = Some b \<and>
               severity a \<le> severity b"
proof -
  obtain a where a: "determineAlertLevel name (Some x) = Some a"
    using determineAlertLevel_stringifiable [OF assms(2)] by auto
  obtain b where b: "determineAlertLevel name (Some y) = Some b"
    using determineAlertLevel_stringifiable [OF assms(2)] by auto
  from determineAlertLevel_mono [OF assms(1) a b] a b show ?thesis by blast
qed

lemma tableGet_string:
  "tableGet table (JStr name) =
     Some (case map_of table name of
             Some entry \<Rightarrow> Own entry
           | None \<Rightarrow> if name \<in> set OBJECT_PROTOTYPE then Inherited else Missing)"
  by (simp add: tableGet_def)

text \<open>
  For every station name that \<^verbatim>\<open>Object.prototype\<close> does not define,
  \<^verbatim>\<open>determineAlertLevel\<close> classifies as the specification says: the thresholds of
  the station, else the default triple; major, minor and alert in this order; a level equal
  to a cutoff meets it.
\<close>

lemma determineAlertLevel_spec:
  assumes "name \<notin> set OBJECT_PROTOTYPE"
  shows "determineAlertLevel (JStr name) (Some l) = Some (spec_classify name l)"
  using assms
  by (simp add: determineAlertLevel_def tableGet_string spec_classify_def spec_thresholds_def
      split: option.splits)

lemma Peradeniya_boundary:
  "determineAlertLevel (JStr ''Peradeniya'') (Some (Fin 8)) = Some MAJOR_FLOOD"
  by (simp add: determineAlertLevel_def tableGet_string ALERT_THRESHOLDS_def num_ge_def)

text \<open>
  None of the names that \<^verbatim>\<open>Object.prototype\<close> defines is a key of a table. For
  each of them the result is Normal, whatever the level.
\<close>

lemma inherited_not_own:
  "list_all (\<lambda>n. map_of ALERT_THRESHOLDS n = None \<and> map_of CRITICAL_STATIONS n = None)
     OBJECT_PROTOTYPE"
  by code_simp

lemma determineAlertLevel_inherited:
  assumes "name \<in> set OBJECT_PROTOTYPE"
  shows "determineAlertLevel (JStr name) l = Some NORMAL"
proof -
  from assms inherited_not_own have "map_of ALERT_THRESHOLDS name = None"
    by (simp add: list_all_iff)
  with assms show ?thesis
    by (simp add: determineAlertLevel_def tableGet_def)
qed

text \<open>
  C4 at the station name \<^verbatim>\<open>constructor\<close> and the level 100. The table read finds
  the inherited \<^verbatim>\<open>Object.prototype.constructor\<close>, which is truthy, so the default
  triple is not taken; its cutoffs are \<^verbatim>\<open>undefined\<close>, no comparison holds, and the
  result is Normal. The station has no thresholds of its own, and 100 exceeds the default
  major cutoff 10: the classification of the specification is Major Flood.
\<close>

theorem C4_inherited_name:
  "determineAlertLevel (JStr ''constructor'') (Some (Fin 100)) = Some NORMAL \<and>
   map_of ALERT_THRESHOLDS ''constructor'' = None \<and>
   spec_classify ''constructor'' (Fin 100) = MAJOR_FLOOD"
  by (simp add: determineAlertLevel_def tableGet_string ALERT_THRESHOLDS_def OBJECT_PROTOTYPE_def
      spec_classify_def spec_thresholds_def DEFAULT_THRESHOLDS_def num_ge_def)

section \<open>The alert of a delivered record\<close>

lemma toReading_alert:
  "toReading now x = Some r \<Longrightarrow> determineAlertLevel (station r) (level r) = Some (alert r)"
  by (auto simp: toReading_def split: Option.bind_splits)

lemma parseRiverData_cases:
  assumes "parseRiverData now rawData = Some readings"
  obtains "readings = []"
  | xs rs where "those (map (toReading now) xs) = Some rs"
      and "readings = filter (\<lambda>r. level r \<noteq> None) rs"
  using assms
  by (auto simp: parseRiverData_def split: if_splits Option.bind_splits jsval.splits)

text \<open>
  Every record that \<^verbatim>\<open>parseRiverData\<close> returns carries the tier that
  \<^verbatim>\<open>determineAlertLevel\<close> derives from its station and its level.
\<close>

lemma parseRiverData_alert:
  assumes "parseRiverData now rawData = Some readings" and "r \<in> set readings"
  shows "determineAlertLevel (station r) (level r) = Some (alert r)"
  using assms(1)
proof (cases rule: parseRiverData_cases)
  case 1
  with assms(2) show ?thesis by simp
next
  case (2 xs rs)
  from 2(2) assms(2) have "r \<in> set rs" by simp
  then have "Some r \<in> set (map Some rs)" by simp
  with those_map_Some [OF 2(1)] have "Some r \<in> set (map (toReading now) xs)" by simp
  then obtain x where "toReading now x = Some r" by auto
  then show ?thesis by (rule toReading_alert)
qed

text \<open>
  C3 on the sample data, which \<^verbatim>\<open>fetchRiverData\<close> delivers when no source answers.
  The labels of the eight records are literals. The record of Hanwella is labelled Minor
  Flood at 9.69 metres, where the thresholds of Hanwella (major 9.0) give Major Flood; the
  labels of Glencourse and Rathnapura differ from the derived tier as well, the other five
  agree.
\<close>

theorem C3_sample_labels:
  "fetchRiverData (\<lambda>url. TransportFailure) ''2025-01-01T00:00:00.000Z'' =
     Some (getSampleData ''2025-01-01T00:00:00.000Z'') \<and>
   map (\<lambda>r. (level r, alert r = MINOR_FLOOD,
             determineAlertLevel (station r) (level r) = Some MAJOR_FLOOD))
     (filter (\<lambda>r. station r = JStr ''Hanwella'') (getSampleData ''2025-01-01T00:00:00.000Z'')) =
     [(Some (Fin (969 / 100)), True, True)] \<and>
   map (\<lambda>r. determineAlertLevel (station r) (level r) = Some (alert r))
     (getSampleData ''2025-01-01T00:00:00.000Z'') =
     [True, True, True, True, False, False, False, True]"
  by code_simp

section \<open>Defaults of the extracted fields\<close>

lemma getStationName_default:
  assumes "getProp raw ''station_name'' = Some JUndefined"
    and "getProp raw ''station'' = Some JUndefined"
    and "getProp raw ''name'' = Some JUndefined"
    and "getProp raw ''Station'' = Some JUndefined"
  shows "getStationName raw = Some (JStr ''Unknown Station'')"
  using assms by (simp add: getStationName_def js_or_def)

lemma getRateOfRise_default:
  assumes "getProp raw ''rate_of_rise'' = Some JUndefined"
    and "getProp raw ''rate'' = Some JUndefined"
    and "getProp raw ''change_rate'' = Some JUndefined"
  shows "getRateOfRise raw = Some (Fin 0)"
  using assms by (simp add: getRateOfRise_def js_or_def parseFloat_def)

lemma getRiverName_default:
  assumes "getProp raw ''river_basin'' = Some JUndefined"
    and "getProp raw ''river'' = Some JUndefined"
    and "getProp raw ''basin'' = Some JUndefined"
    and "getProp raw ''River'' = Some JUndefined"
    and "getStationName raw = Some (JStr name)"
  shows "getRiverName raw =
           Some (case map_of CRITICAL_STATIONS name of
                   Some entry \<Rightarrow> JStr (cs_river entry)
                 | None \<Rightarrow> JStr ''Unknown River'')"
proof -
  have "cs_river entry \<noteq> []" if "map_of CRITICAL_STATIONS name = Some entry" for entry
    using that by (auto simp: CRITICAL_STATIONS_def split: if_splits)
  with assms show ?thesis
    by (auto simp: getRiverName_def js_or_def tableGet_string split: option.splits)
qed

text \<open>
  Without a truthy latitude and a truthy longitude, and for a station name that
  \<^verbatim>\<open>Object.prototype\<close> does not define, the coordinates are those of the registry
  entry of the name, else the centre of Sri Lanka.
\<close>

lemma getCoordinates_fallback:
  assumes "getProp raw ''latitude'' = Some la" and "getProp raw ''longitude'' = Some lo"
    and "\<not> (truthy la \<and> truthy lo)"
    and "name \<notin> set OBJECT_PROTOTYPE"
  shows "getCoordinates raw (JStr name) = Some (spec_coordinates name)"
  using assms
  by (auto simp: getCoordinates_def tableGet_string spec_coordinates_def split: option.splits)

text \<open>For a name that \<^verbatim>\<open>Object.prototype\<close> defines they are \<^verbatim>\<open>undefined\<close>.\<close>

lemma getCoordinates_inherited:
  assumes "getProp raw ''latitude'' = Some la" and "getProp raw ''longitude'' = Some lo"
    and "\<not> (truthy la \<and> truthy lo)"
    and "name \<in> set OBJECT_PROTOTYPE"
  shows "getCoordinates raw (JStr name) = Some \<lparr>lat = JUndefined, lng = JUndefined\<rparr>"
proof -
  from assms(4) inherited_not_own have "map_of CRITICAL_STATIONS name = None"
    by (simp add: list_all_iff)
  with assms show ?thesis
    by (auto simp: getCoordinates_def tableGet_def)
qed

text \<open>With both truthy, the coordinates are the two values parsed.\<close>

lemma getCoordinates_explicit:
  assumes "getProp raw ''latitude'' = Some la" and "getProp raw ''longitude'' = Some lo"
    and "truthy la" and "truthy lo" and "stringifiable la" and "stringifiable lo"
  shows "getCoordinates raw stationName =
           Some \<lparr>lat = JNum (parseText la), lng = JNum (parseText lo)\<rparr>"
  using assms by (simp add: getCoordinates_def parseFloat_def)

text \<open>
  C9 at the raw station \<^verbatim>\<open>{station: "constructor", level: 1}\<close>, which has neither
  \<^verbatim>\<open>latitude\<close> nor \<^verbatim>\<open>longitude\<close>. \<^verbatim>\<open>CRITICAL_STATIONS["constructor"]\<close>
  is the inherited \<^verbatim>\<open>Object.prototype.constructor\<close>, truthy, and its
  \<^verbatim>\<open>lat\<close> and \<^verbatim>\<open>lng\<close> are \<^verbatim>\<open>undefined\<close>: the record gets neither a
  registry entry nor the centre of Sri Lanka, which is the default of the specification
  for a name that is not in the registry.
\<close>

theorem C9_inherited_name:
  "getStationName (JObj [(''station'', JStr ''constructor''), (''level'', JNum (Fin 1))]) =
     Some (JStr ''constructor'') \<and>
   getProp (JObj [(''station'', JStr ''constructor''), (''level'', JNum (Fin 1))]) ''latitude'' =
     Some JUndefined \<and>
   getProp (JObj [(''station'', JStr ''constructor''), (''level'', JNum (Fin 1))]) ''longitude'' =
     Some JUndefined \<and>
   map_option coordinates
     (toReading ''2025-01-01T00:00:00.000Z''
        (JObj [(''station'', JStr ''constructor''), (''level'', JNum (Fin 1))])) =
     Some \<lparr>lat = JUndefined, lng = JUndefined\<rparr> \<and>
   spec_coordinates ''constructor'' = SRI_LANKA_CENTER"
  by code_simp

text \<open>
  C10 at a raw station named \<^verbatim>\<open>toString\<close> with latitude 0 and longitude 80.5. The
  latitude is falsy, so the explicit pair is ignored, as the claim says. The registry read
  then finds the inherited \<^verbatim>\<open>Object.prototype.toString\<close>: the coordinates are
  \<^verbatim>\<open>undefined\<close>, not the centre of Sri Lanka.
\<close>

theorem C10_inherited_name:
  "getProp
     (JObj [(''name'', JStr ''toString''), (''level_m'', JStr ''3.2''),
            (''latitude'', JNum (Fin 0)), (''longitude'', JNum (Fin (805 / 10)))])
     ''latitude'' = Some (JNum (Fin 0)) \<and>
   map_option (\<lambda>r. (station r, coordinates r))
     (toReading ''2025-01-01T00:00:00.000Z''
        (JObj [(''name'', JStr ''toString''), (''level_m'', JStr ''3.2''),
            (''latitude'', JNum (Fin 0)), (''longitude'', JNum (Fin (805 / 10)))])) =
     Some (JStr ''toString'', \<lparr>lat = JUndefined, lng = JUndefined\<rparr>) \<and>
   spec_coordinates ''toString'' = SRI_LANKA_CENTER"
  by code_simp

end
